theory Spec2Isabelle
  imports Main
begin

section \<open>friendlyshell: shell sessions, dispatch and history isolation\<close>

text \<open>
  A shallow embedding of \<^verbatim>\<open>friendlyshell/base_shell.py\<close> (class \<^verbatim>\<open>BaseShell\<close>) and of the
  two context managers of \<^verbatim>\<open>friendlyshell/command_complete_mixin.py\<close>.

  Shell objects refer to each other through \<^verbatim>\<open>_parent\<close> and share one input stream
  object with their sub-shells, so the instance attributes live in a store indexed by object
  identity. What a class defines (its methods, its parser) is kept apart in a
  \<^emph>\<open>program\<close>: code is not data of the store.
\<close>

subsection \<open>Python values the engine handles\<close>

text \<open>
  The exceptions the engine tells apart. \<^verbatim>\<open>EOFError\<close> and every \<open>OtherException\<close> are
  instances of \<^verbatim>\<open>Exception\<close>; \<^verbatim>\<open>KeyboardInterrupt\<close> and every \<open>OtherBaseException\<close>
  (\<^verbatim>\<open>SystemExit\<close>, \<^verbatim>\<open>GeneratorExit\<close>) derive from \<^verbatim>\<open>BaseException\<close> only, so that
  \<^verbatim>\<open>except Exception\<close> does not catch them.
\<close>

datatype pyexc =
    EOFError
  | KeyboardInterrupt
  | OtherException string
  | OtherBaseException string

fun is_Exception :: "pyexc \<Rightarrow> bool" where
  "is_Exception EOFError = True"
| "is_Exception (OtherException m) = True"
| "is_Exception KeyboardInterrupt = False"
| "is_Exception (OtherBaseException m) = False"

datatype level = INFO | WARNING | ERROR

datatype arg = S string | N nat | X pyexc

text \<open>
  One call of \<^verbatim>\<open>self.info\<close>, \<^verbatim>\<open>self.warning\<close> or \<^verbatim>\<open>self.error\<close>: the sink, the format
  string and the arguments, in the order of the calls. The body of \<^verbatim>\<open>BaseShell.debug\<close> is
  \<^verbatim>\<open>pass\<close>: a call of \<^verbatim>\<open>self.debug\<close> does nothing and is not recorded.
\<close>

type_synonym event = "level \<times> string \<times> arg list"

text \<open>What one read of an input source gives: a line, or an exception.\<close>

datatype read_outcome = Line string | ReadRaises pyexc

subsection \<open>The store\<close>

text \<open>The instance attributes that \<^verbatim>\<open>BaseShell.__init__\<close> creates (the parser apart).\<close>

record shell =
  prompt :: string
  banner_text :: "string option"
  done_flag :: bool
  input_stream :: "nat option"
  parent :: "nat option"
  comment_delimiter :: string

text \<open>
  \<open>shells\<close> maps the identity of a shell object to its attributes, \<open>streams\<close> the identity
  of an input stream object to what its coming \<^verbatim>\<open>readline\<close> calls give (an exhausted
  stream gives the empty string), \<open>stdin\<close> is what the coming calls of \<^verbatim>\<open>input\<close> give
  (when exhausted, \<^verbatim>\<open>input\<close> raises \<^verbatim>\<open>EOFError\<close>), and \<open>log\<close> holds the calls of the
  sinks.
\<close>

record world =
  shells :: "nat \<Rightarrow> shell"
  streams :: "nat \<Rightarrow> read_outcome list"
  stdin :: "read_outcome list"
  log :: "event list"

definition emit :: "level \<Rightarrow> string \<Rightarrow> arg list \<Rightarrow> world \<Rightarrow> world" where
  "emit l fmt args w = w\<lparr>log := log w @ [(l, fmt, args)]\<rparr>"

text \<open>The assignment \<^verbatim>\<open>self._done = True\<close>.\<close>

definition set_done :: "nat \<Rightarrow> world \<Rightarrow> world" where
  "set_done self w = w\<lparr>shells := (shells w)(self := (shells w self)\<lparr>done_flag := True\<rparr>)\<rparr>"

subsection \<open>Methods and programs\<close>

text \<open>
  A method as the engine sees it: its \<^verbatim>\<open>__name__\<close>, its declared parameters (\<^verbatim>\<open>self\<close>
  apart: first those without a default, then those with one), and the two ways the engine
  calls it.

  The engine calls a command handler with bound arguments: \<open>body\<close> is what that call
  does to the store. It ends by returning (\<open>None\<close>) or by raising (\<open>Some e\<close>); the outer
  \<open>option\<close> is \<open>None\<close> for a call that does not return.

  The engine calls an \<^verbatim>\<open>alias_\<close> member without arguments and compares what it returns
  with the command name: \<open>returns\<close> is how that call ends, by raising (\<open>Inl e\<close>) or by
  returning a value (\<open>Inr\<close>), which is a string (\<open>Some s\<close>) or something that equals no
  string (\<open>None\<close>). An alias method is a lookup, like the static method
  \<^verbatim>\<open>alias_native_shell\<close>: it does not touch the store.
\<close>

record shell_method =
  name :: string
  num_required :: nat
  num_optional :: nat
  returns :: "pyexc + string option"
  body :: "string list \<Rightarrow> nat \<Rightarrow> world \<Rightarrow> (pyexc option \<times> world) option"

record parsed =
  command :: string
  params :: "string list"

record parse_exception =
  pstr :: string
  col :: nat

text \<open>
  What the engine takes from outside \<^verbatim>\<open>base_shell.py\<close>: \<open>all_methods P self\<close> is the list
  \<^verbatim>\<open>inspect.getmembers\<close> gives for the object (methods, then functions, each as a pair of
  attribute name and value); \<open>parseString\<close> is \<^verbatim>\<open>self._parser.parseString(line, parseAll=True)\<close>,
  which returns or raises \<^verbatim>\<open>ParseException\<close>; \<open>expandvars\<close> is \<^verbatim>\<open>os.path.expandvars\<close>;
  \<open>format_ok m\<close> says whether \<^verbatim>\<open>m % ()\<close> evaluates, which \<^verbatim>\<open>BaseShell.info\<close> computes
  before it prints.
\<close>

record program =
  all_methods :: "nat \<Rightarrow> (string \<times> shell_method) list"
  parseString :: "string \<Rightarrow> parse_exception + parsed"
  expandvars :: "string \<Rightarrow> string"
  format_ok :: "string \<Rightarrow> bool"

subsection \<open>\<^verbatim>\<open>do_exit\<close> and \<^verbatim>\<open>do_close\<close>\<close>

text \<open>
  \<^verbatim>\<open>do_exit\<close> sets \<^verbatim>\<open>_done\<close> and calls \<^verbatim>\<open>do_exit\<close> of the parent when there is one. Nothing
  in the code bounds the chain of parents, so the function is partial: \<open>None\<close> is a call
  that does not return.
\<close>

partial_function (option) do_exit :: "world \<Rightarrow> nat \<Rightarrow> world option" where
  "do_exit w self =
     (case parent (shells w self) of
        Some p \<Rightarrow> do_exit (set_done self w) p
      | None \<Rightarrow> Some (set_done self w))"

definition do_close :: "world \<Rightarrow> nat \<Rightarrow> world" where
  "do_close w self = set_done self w"

text \<open>
  \<open>ancestry w s ps\<close>: following \<^verbatim>\<open>_parent\<close> from \<open>s\<close> visits exactly \<open>ps\<close>, nearest
  first, and the last of them has no parent. The length of \<open>ps\<close> is the nesting depth of
  \<open>s\<close>.
\<close>

fun ancestry :: "world \<Rightarrow> nat \<Rightarrow> nat list \<Rightarrow> bool" where
  "ancestry w s [] = (parent (shells w s) = None)"
| "ancestry w s (p # ps) = (parent (shells w s) = Some p \<and> ancestry w p ps)"

subsection \<open>\<^verbatim>\<open>_find_command\<close>\<close>

definition startswith :: "string \<Rightarrow> string \<Rightarrow> bool" where
  "startswith s p = (take (length p) s = p)"

text \<open>
  The call \<^verbatim>\<open>cur_method[1]()\<close> of the second loop: a member that has a parameter without
  default raises \<^verbatim>\<open>TypeError\<close> when it is called without arguments.
\<close>

definition alias_call :: "shell_method \<Rightarrow> pyexc + string option" where
  "alias_call cur_method =
     (if 0 < num_required cur_method then Inl (OtherException ''TypeError'')
      else returns cur_method)"

text \<open>
  The second loop of \<^verbatim>\<open>_find_command\<close>, up to the recursive call: the members are visited
  in order, one whose name does not start with \<^verbatim>\<open>alias_\<close> is passed over, every other one
  is called, and the loop stops at the first whose call returns the command name
  (\<open>Inr (Some cur_method)\<close>), or when a call raises (\<open>Inl e\<close>), or at the end of the list
  (\<open>Inr None\<close>).
\<close>

fun find_alias ::
  "(string \<times> shell_method) list \<Rightarrow> string \<Rightarrow> pyexc + (string \<times> shell_method) option" where
  "find_alias [] command_name = Inr None"
| "find_alias (cur_method # rest) command_name =
     (if \<not> startswith (fst cur_method) ''alias_'' then find_alias rest command_name
      else
        (case alias_call (snd cur_method) of
           Inl e \<Rightarrow> Inl e
         | Inr v \<Rightarrow>
             if v = Some command_name then Inr (Some cur_method)
             else find_alias rest command_name))"

text \<open>
  The first loop returns the first member named \<^verbatim>\<open>do_\<close> followed by the command name.
  When there is none the second loop runs, and for the alias member it stops at,
  \<^verbatim>\<open>_find_command\<close> returns what the recursive call on the rest of that member's name
  gives. The call returns a method or \<^verbatim>\<open>None\<close> (\<open>Inr\<close>) or is left by an exception
  (\<open>Inl\<close>); the outer \<open>option\<close> is \<open>None\<close> when the recursion does not end.
\<close>

partial_function (option) find_command ::
  "(string \<times> shell_method) list \<Rightarrow> string \<Rightarrow> (pyexc + shell_method option) option" where
  "find_command ms command_name =
     (case find (\<lambda>cur_method. fst cur_method = ''do_'' @ command_name) ms of
        Some cur_method \<Rightarrow> Some (Inr (Some (snd cur_method)))
      | None \<Rightarrow>
          (case find_alias ms command_name of
             Inl e \<Rightarrow> Some (Inl e)
           | Inr (Some cur_method) \<Rightarrow>
               find_command ms (drop (length ''alias_'') (fst cur_method))
           | Inr None \<Rightarrow> Some (Inr None)))"

subsection \<open>\<^verbatim>\<open>_check_params\<close> and \<^verbatim>\<open>_execute_command\<close>\<close>

text \<open>
  \<^verbatim>\<open>_count_required_params\<close> counts the parameters of the signature without a default,
  \<^verbatim>\<open>_count_params\<close> all of them.
\<close>

definition count_required_params :: "shell_method \<Rightarrow> nat" where
  "count_required_params cmd_method = num_required cmd_method"

definition count_params :: "shell_method \<Rightarrow> nat" where
  "count_params cmd_method = num_required cmd_method + num_optional cmd_method"

text \<open>\<^verbatim>\<open>s.replace("do_", "")\<close>: every occurrence, left to right.\<close>

fun replace_do :: "string \<Rightarrow> string" where
  "replace_do (a # b # c # cs) =
     (if [a, b, c] = ''do_'' then replace_do cs else a # replace_do (b # c # cs))"
| "replace_do cs = cs"

definition check_params :: "shell_method \<Rightarrow> parsed \<Rightarrow> world \<Rightarrow> bool \<times> world" where
  "check_params func parser w =
     (let num_tokens = length (params parser);
          num_required_params = count_required_params func;
          total_num_params = count_params func
      in if total_num_params = 0 \<and> num_tokens \<noteq> 0 then
           (False, emit ERROR ''Command %s accepts no parameters but %s provided.''
                     [S (replace_do (name func)), N num_tokens] w)
         else if num_tokens < num_required_params then
           (False, emit ERROR ''Command %s requires %s parameters but %s provided.''
                     [S (replace_do (name func)), N num_required_params, N num_tokens] w)
         else (True, w))"

text \<open>\<^verbatim>\<open>sep.join(xs)\<close>.\<close>

fun join :: "string \<Rightarrow> string list \<Rightarrow> string" where
  "join sep [] = []"
| "join sep [x] = x"
| "join sep (x # y # ys) = x @ sep @ join sep (y # ys)"

text \<open>
  The slices \<^verbatim>\<open>xs[-n:]\<close> and \<^verbatim>\<open>xs[:-n]\<close> for \<open>n > 0\<close>: a start before the first element is
  the first element.
\<close>

definition slice_last :: "nat \<Rightarrow> 'a list \<Rightarrow> 'a list" where
  "slice_last n xs = drop (length xs - n) xs"

definition slice_butlast :: "nat \<Rightarrow> 'a list \<Rightarrow> 'a list" where
  "slice_butlast n xs = take (length xs - n) xs"

text \<open>
  The call \<^verbatim>\<open>func(*args)\<close>: Python raises \<^verbatim>\<open>TypeError\<close> before the body runs when the
  number of positional arguments does not fit the signature.
\<close>

definition call :: "shell_method \<Rightarrow> string list \<Rightarrow> nat \<Rightarrow> world \<Rightarrow> (pyexc option \<times> world) option" where
  "call func args self w =
     (if count_required_params func \<le> length args \<and> length args \<le> count_params func
      then body func args self w
      else Some (Some (OtherException ''TypeError''), w))"

text \<open>The argument list the \<^verbatim>\<open>try\<close> block of \<^verbatim>\<open>_execute_command\<close> builds for a non-empty \<^verbatim>\<open>parser.params\<close>.\<close>

definition params_to_pass :: "shell_method \<Rightarrow> string list \<Rightarrow> string list" where
  "params_to_pass func ps =
     (let num_params_total = count_params func
      in if length ps > num_params_total then
           (let num_params_to_compress = length ps - num_params_total + 1;
                compressed = join '' '' (slice_last num_params_to_compress ps)
            in slice_butlast num_params_to_compress ps @ [compressed])
         else ps)"

text \<open>
  The two \<^verbatim>\<open>except\<close> clauses of \<^verbatim>\<open>_execute_command\<close>, applied to the way the \<^verbatim>\<open>try\<close> block
  ended: an \<^verbatim>\<open>Exception\<close> is reported through \<^verbatim>\<open>self.error\<close>, a \<^verbatim>\<open>KeyboardInterrupt\<close>
  writes an empty line through \<^verbatim>\<open>self.info\<close>, and the method returns; any other exception
  leaves the method.
\<close>

definition except_clauses :: "(pyexc option \<times> world) option \<Rightarrow> (pyexc option \<times> world) option" where
  "except_clauses r =
     (case r of
        None \<Rightarrow> None
      | Some (None, w') \<Rightarrow> Some (None, w')
      | Some (Some err, w') \<Rightarrow>
          if is_Exception err then
            Some (None, emit ERROR ''Unknown error detected: %s'' [X err] w')
          else if err = KeyboardInterrupt then
            Some (None, emit INFO [] [] w')
          else Some (Some err, w'))"

definition execute_command ::
  "shell_method \<Rightarrow> parsed \<Rightarrow> nat \<Rightarrow> world \<Rightarrow> (pyexc option \<times> world) option" where
  "execute_command func parser self w =
     except_clauses
       (if params parser = [] then call func [] self w
        else call func (params_to_pass func (params parser)) self w)"

subsection \<open>\<^verbatim>\<open>_get_input\<close> and \<^verbatim>\<open>_parse_line\<close>\<close>

text \<open>
  The \<^verbatim>\<open>try\<close> block of \<^verbatim>\<open>_get_input\<close>: the line it returns (\<open>Inr\<close>) or the exception it
  raises (\<open>Inl\<close>), and the store after the read. A stream is read with \<^verbatim>\<open>readline\<close>, an
  empty result raises \<^verbatim>\<open>EOFError\<close>, and the line is echoed through \<^verbatim>\<open>self.info\<close> with the
  prompt; without a stream the line comes from \<^verbatim>\<open>input\<close>.
\<close>

definition read_input :: "program \<Rightarrow> nat \<Rightarrow> world \<Rightarrow> (pyexc + string) \<times> world" where
  "read_input P self w =
     (case input_stream (shells w self) of
        Some f \<Rightarrow>
          (case streams w f of
             [] \<Rightarrow> (Inl EOFError, w)
           | ReadRaises e # rest \<Rightarrow> (Inl e, w\<lparr>streams := (streams w)(f := rest)\<rparr>)
           | Line line # rest \<Rightarrow>
               if line = [] then (Inl EOFError, w\<lparr>streams := (streams w)(f := rest)\<rparr>)
               else if format_ok P (prompt (shells w self) @ line) then
                 (Inr line, emit INFO (prompt (shells w self) @ line) []
                              (w\<lparr>streams := (streams w)(f := rest)\<rparr>))
               else (Inl (OtherException ''TypeError''), w\<lparr>streams := (streams w)(f := rest)\<rparr>))
      | None \<Rightarrow>
          (case stdin w of
             [] \<Rightarrow> (Inl EOFError, w)
           | ReadRaises e # rest \<Rightarrow> (Inl e, w\<lparr>stdin := rest\<rparr>)
           | Line line # rest \<Rightarrow> (Inr line, w\<lparr>stdin := rest\<rparr>)))"

text \<open>
  \<^verbatim>\<open>_get_input\<close> returns the line, or \<^verbatim>\<open>None\<close> after one of its three \<^verbatim>\<open>except\<close> clauses
  (\<open>Inr\<close>); an exception none of them catches leaves the method (\<open>Inl\<close>).
\<close>

definition get_input ::
  "program \<Rightarrow> nat \<Rightarrow> world \<Rightarrow> ((pyexc + string option) \<times> world) option" where
  "get_input P self w =
     (case read_input P self w of
        (Inr line, w') \<Rightarrow> Some (Inr (Some line), w')
      | (Inl KeyboardInterrupt, w') \<Rightarrow> Some (Inr None, set_done self w')
      | (Inl EOFError, w') \<Rightarrow>
          (case do_exit w' self of None \<Rightarrow> None | Some w'' \<Rightarrow> Some (Inr None, w''))
      | (Inl (OtherException m), w') \<Rightarrow>
          Some (Inr None,
                set_done self
                  (emit ERROR ''Unexpected error during input sequence: %s''
                     [X (OtherException m)] w'))
      | (Inl (OtherBaseException m), w') \<Rightarrow> Some (Inl (OtherBaseException m), w'))"

definition parse_line :: "program \<Rightarrow> string \<Rightarrow> world \<Rightarrow> parsed option \<times> world" where
  "parse_line P line w =
     (case parseString P line of
        Inl err \<Rightarrow>
          (None,
           emit ERROR (CHR 0x09 # ''%s^'') [S (replicate (col err - 1) CHR '' '')]
             (emit ERROR (CHR 0x09 # ''%s'') [S (pstr err)]
                (emit ERROR ''Parsing error:'' [] w)))
      | Inr retval \<Rightarrow> (Some retval, w))"

subsection \<open>\<^verbatim>\<open>run\<close>\<close>

text \<open>
  The body of the \<^verbatim>\<open>while\<close> loop after \<^verbatim>\<open>line = self._get_input()\<close>. The result is \<open>None\<close>
  when the iteration ends (by \<^verbatim>\<open>continue\<close> or at the end of the body) and \<open>Some e\<close> when
  the exception \<open>e\<close> leaves it. The call of \<^verbatim>\<open>_find_command\<close> stands in no \<^verbatim>\<open>try\<close> block:
  an exception that leaves it leaves the loop.
\<close>

definition process_line ::
  "program \<Rightarrow> nat \<Rightarrow> string option \<Rightarrow> world \<Rightarrow> (pyexc option \<times> world) option" where
  "process_line P self line w =
     (case line of
        None \<Rightarrow> Some (None, w)
      | Some l \<Rightarrow>
          if l = [] then Some (None, w)
          else if startswith l (comment_delimiter (shells w self)) then Some (None, w)
          else
            (case parse_line P (expandvars P l) w of
               (None, w1) \<Rightarrow> Some (None, w1)
             | (Some parser, w1) \<Rightarrow>
                 (case find_command (all_methods P self) (command parser) of
                    None \<Rightarrow> None
                  | Some (Inl e) \<Rightarrow> Some (Some e, w1)
                  | Some (Inr None) \<Rightarrow>
                      Some (None, emit ERROR ''Command not found: %s'' [S (command parser)] w1)
                  | Some (Inr (Some func)) \<Rightarrow>
                      (case check_params func parser w1 of
                         (False, w2) \<Rightarrow> Some (None, w2)
                       | (True, w2) \<Rightarrow> execute_command func parser self w2))))"

text \<open>
  The loop \<^verbatim>\<open>while not self._done\<close>. It ends normally (\<open>None\<close>) or by an exception that
  leaves \<^verbatim>\<open>run\<close> (\<open>Some e\<close>); the outer \<open>option\<close> is \<open>None\<close> when it does not end.
\<close>

partial_function (option) run_loop ::
  "program \<Rightarrow> nat \<Rightarrow> world \<Rightarrow> (pyexc option \<times> world) option" where
  "run_loop P self w =
     (if done_flag (shells w self) then Some (None, w)
      else
        (case get_input P self w of
           None \<Rightarrow> None
         | Some (Inl e, w1) \<Rightarrow> Some (Some e, w1)
         | Some (Inr line, w1) \<Rightarrow>
             (case process_line P self line w1 of
                None \<Rightarrow> None
              | Some (Some e, w2) \<Rightarrow> Some (Some e, w2)
              | Some (None, w2) \<Rightarrow> run_loop P self w2)))"

text \<open>
  \<^verbatim>\<open>run\<close> stores the two keyword arguments (\<open>None\<close> when absent), shows the banner and
  enters the loop.
\<close>

definition run ::
  "program \<Rightarrow> nat \<Rightarrow> nat option \<Rightarrow> nat option \<Rightarrow> world \<Rightarrow> (pyexc option \<times> world) option" where
  "run P self input_stream_kw parent_kw w =
     (let w1 = w\<lparr>shells := (shells w)(self :=
                   (shells w self)\<lparr>input_stream := input_stream_kw, parent := parent_kw\<rparr>)\<rparr>
      in case banner_text (shells w1 self) of
           None \<Rightarrow> run_loop P self w1
         | Some b \<Rightarrow>
             if b = [] then run_loop P self w1
             else if format_ok P b then run_loop P self (emit INFO b [] w1)
             else Some (Some (OtherException ''TypeError''), w1))"

definition run_subshell ::
  "program \<Rightarrow> nat \<Rightarrow> nat \<Rightarrow> world \<Rightarrow> (pyexc option \<times> world) option" where
  "run_subshell P self subshell w =
     run P subshell (input_stream (shells w self)) (Some self) w"

subsection \<open>The line-editing backend\<close>

text \<open>
  The state of the \<^verbatim>\<open>readline\<close> module that the two context managers of
  \<^verbatim>\<open>command_complete_mixin.py\<close> touch: the in-memory history, the installed completer (a
  callback, by identity), the key bindings, and the history files by path, each a list of
  entries. \<open>autocomplete_enabled\<close> is the module constant \<^verbatim>\<open>AUTOCOMPLETE_ENABLED\<close>, and
  \<open>has_read_history_file\<close> is \<^verbatim>\<open>hasattr(readline, "read_history_file")\<close>. Reading and
  writing a file that can be read or written does not fail.
\<close>

record backend =
  history :: "string list"
  completer :: "nat option"
  bindings :: "string list"
  files :: "string \<Rightarrow> string list option"
  autocomplete_enabled :: bool
  has_read_history_file :: bool

text \<open>
  The module calls \<^verbatim>\<open>readline.set_history_length(1000)\<close> when it is imported, so that
  \<^verbatim>\<open>write_history_file\<close> leaves the last 1000 entries in the file it writes.
\<close>

definition history_length :: nat where
  "history_length = 1000"

definition write_history_file :: "string \<Rightarrow> backend \<Rightarrow> backend" where
  "write_history_file f b = b\<lparr>files := (files b)(f \<mapsto> slice_last history_length (history b))\<rparr>"

text \<open>\<^verbatim>\<open>read_history_file\<close> appends the entries of the file to the history; a missing file raises.\<close>

definition read_history_file :: "string \<Rightarrow> backend \<Rightarrow> pyexc option \<times> backend" where
  "read_history_file f b =
     (case files b f of
        None \<Rightarrow> (Some (OtherException ''IOError''), b)
      | Some entries \<Rightarrow> (None, b\<lparr>history := history b @ entries\<rparr>))"

definition clear_history :: "backend \<Rightarrow> backend" where
  "clear_history b = b\<lparr>history := []\<rparr>"

text \<open>\<^verbatim>\<open>os.path.exists\<close> of a string.\<close>

definition path_exists :: "backend \<Rightarrow> string \<Rightarrow> bool" where
  "path_exists b f = (f \<noteq> [] \<and> files b f \<noteq> None)"

subsection \<open>\<^verbatim>\<open>_autocomplete_helper\<close> and \<^verbatim>\<open>auto_complete_manager\<close>\<close>

text \<open>
  A context manager made by \<^verbatim>\<open>@contextmanager\<close> is modelled as a function of the body of
  the \<^verbatim>\<open>with\<close> statement: the generator runs up to its \<^verbatim>\<open>yield\<close>, the body runs, and an
  exception the body raises is raised again at the \<^verbatim>\<open>yield\<close>. The result is the
  exception that leaves the \<^verbatim>\<open>with\<close> statement, if any, and the backend after it.

  \<^verbatim>\<open>os.path.exists(None)\<close> raises \<^verbatim>\<open>TypeError\<close>, before the helper has changed anything.
\<close>

definition autocomplete_helper ::
  "string \<Rightarrow> nat \<Rightarrow> string option \<Rightarrow> (backend \<Rightarrow> pyexc option \<times> backend) \<Rightarrow> backend
     \<Rightarrow> pyexc option \<times> backend" where
  "autocomplete_helper key callback history_file scope b =
     (case history_file of
        None \<Rightarrow> (Some (OtherException ''TypeError''), b)
      | Some f \<Rightarrow>
          (case (if path_exists b f \<and> has_read_history_file b then read_history_file f b
                 else (None, b)) of
             (Some e, b1) \<Rightarrow> (Some e, b1)
           | (None, b1) \<Rightarrow>
               (let old_completer = completer b1;
                    b2 = b1\<lparr>completer := Some callback,
                            bindings := bindings b1 @ [key @ '': complete'']\<rparr>;
                    (r, b3) = scope b2;
                    b4 = b3\<lparr>completer := old_completer\<rparr>;
                    b5 = (if f \<noteq> [] then write_history_file f b4 else b4)
                in (r, b5))))"

text \<open>
  In the nested branch the temporary file is private to the call (a fresh name, removed
  when the \<^verbatim>\<open>with\<close> statement is left), so its content is the local value \<open>temp_file\<close>.
  The two statements after the inner \<^verbatim>\<open>with\<close> statement run only when it is left without
  an exception.
\<close>

definition auto_complete_manager ::
  "string \<Rightarrow> nat \<Rightarrow> string option \<Rightarrow> (backend \<Rightarrow> pyexc option \<times> backend) \<Rightarrow> backend
     \<Rightarrow> pyexc option \<times> backend" where
  "auto_complete_manager key callback history_file scope b =
     (if \<not> autocomplete_enabled b then scope b
      else if length (history b) = 0 then autocomplete_helper key callback history_file scope b
      else
        (let temp_file = slice_last history_length (history b);
             b1 = clear_history b
         in case autocomplete_helper key callback history_file scope b1 of
              (Some e, b2) \<Rightarrow> (Some e, b2)
            | (None, b2) \<Rightarrow>
                if has_read_history_file b2
                then (None, (clear_history b2)\<lparr>history := temp_file\<rparr>)
                else (Some (OtherException ''AttributeError''), clear_history b2)))"

text \<open>A scope that enters the given lines at the prompt: \<^verbatim>\<open>input\<close> adds each to the history.\<close>

definition add_history :: "string list \<Rightarrow> backend \<Rightarrow> pyexc option \<times> backend" where
  "add_history entries b = (None, b\<lparr>history := history b @ entries\<rparr>)"

text \<open>A scope that enters the given lines and then ends by the exception \<open>e\<close>.\<close>

definition add_history_then_raise :: "string list \<Rightarrow> pyexc \<Rightarrow> backend \<Rightarrow> pyexc option \<times> backend" where
  "add_history_then_raise entries e b = (Some e, b\<lparr>history := history b @ entries\<rparr>)"

subsection \<open>Sample shells\<close>

text \<open>
  Concrete inputs on which the definitions are evaluated. \<open>init_shell\<close> holds the
  attributes as \<^verbatim>\<open>BaseShell.__init__\<close> sets them. In \<open>nested_world\<close> shell 2 runs under
  shell 1, which runs under shell 0.
\<close>

definition init_shell :: shell where
  "init_shell = \<lparr>prompt = ''> '', banner_text = None, done_flag = False,
                  input_stream = None, parent = None, comment_delimiter = ''#''\<rparr>"

definition nested_world :: world where
  "nested_world =
     \<lparr>shells = (\<lambda>i. init_shell)(1 := init_shell\<lparr>parent := Some 0\<rparr>,
                                    2 := init_shell\<lparr>parent := Some 1\<rparr>),
      streams = (\<lambda>f. []), stdin = [], log = []\<rparr>"

text \<open>
  A command handler that writes the arguments it is called with through \<^verbatim>\<open>self.info\<close>, one
  that raises, and an alias method.
\<close>

definition handler :: "string \<Rightarrow> nat \<Rightarrow> nat \<Rightarrow> shell_method" where
  "handler n r opt =
     \<lparr>name = n, num_required = r, num_optional = opt, returns = Inr None,
      body = (\<lambda>args self w. Some (None, emit INFO n (map S args) w))\<rparr>"

definition failing_handler :: "string \<Rightarrow> pyexc \<Rightarrow> shell_method" where
  "failing_handler n e =
     \<lparr>name = n, num_required = 0, num_optional = 0, returns = Inl e,
      body = (\<lambda>args self w. Some (Some e, w))\<rparr>"

definition alias_method :: "string \<Rightarrow> string \<Rightarrow> shell_method" where
  "alias_method n shorthand =
     \<lparr>name = n, num_required = 0, num_optional = 0, returns = Inr (Some shorthand),
      body = (\<lambda>args self w. Some (None, w))\<rparr>"

text \<open>The commands \<^verbatim>\<open>BaseShell\<close> defines: \<^verbatim>\<open>do_exit\<close> and \<^verbatim>\<open>do_close\<close> as methods.\<close>

definition exit_method :: shell_method where
  "exit_method =
     \<lparr>name = ''do_exit'', num_required = 0, num_optional = 0, returns = Inr None,
      body = (\<lambda>args self w. map_option (Pair None) (do_exit w self))\<rparr>"

definition close_method :: shell_method where
  "close_method =
     \<lparr>name = ''do_close'', num_required = 0, num_optional = 0, returns = Inr None,
      body = (\<lambda>args self w. Some (None, do_close w self))\<rparr>"

text \<open>
  A shell class with the two built-in commands, \<^verbatim>\<open>do_deploy(self, region, notes='')\<close>,
  \<^verbatim>\<open>do_status(self)\<close>, a command that raises, and the alias \<^verbatim>\<open>d\<close> of \<^verbatim>\<open>deploy\<close>.
\<close>

definition sample_methods :: "(string \<times> shell_method) list" where
  "sample_methods =
     [(''alias_deploy'', alias_method ''alias_deploy'' ''d''),
      (''do_close'', close_method),
      (''do_deploy'', handler ''do_deploy'' 1 1),
      (''do_exit'', exit_method),
      (''do_fail'', failing_handler ''do_fail'' (OtherException ''boom'')),
      (''do_status'', handler ''do_status'' 0 0)]"

text \<open>
  A shell class whose two alias methods name each other's command, and neither command
  exists: \<^verbatim>\<open>alias_list\<close> returns \<^verbatim>\<open>ls\<close> and \<^verbatim>\<open>alias_ls\<close> returns \<^verbatim>\<open>list\<close>.
\<close>

definition cyclic_methods :: "(string \<times> shell_method) list" where
  "cyclic_methods =
     [(''alias_list'', alias_method ''alias_list'' ''ls''),
      (''alias_ls'', alias_method ''alias_ls'' ''list'')]"

text \<open>
  A shell class with the commands \<^verbatim>\<open>list\<close> and \<^verbatim>\<open>ls\<close>, where \<^verbatim>\<open>alias_list\<close> returns
  \<^verbatim>\<open>ls\<close>.
\<close>

definition shadowed_methods :: "(string \<times> shell_method) list" where
  "shadowed_methods =
     [(''alias_list'', alias_method ''alias_list'' ''ls''),
      (''do_list'', handler ''do_list'' 0 0),
      (''do_ls'', handler ''do_ls'' 0 1)]"

text \<open>
  A shell class whose first alias method raises when it is called: \<^verbatim>\<open>alias_a\<close> raises,
  \<^verbatim>\<open>alias_deploy\<close> returns \<^verbatim>\<open>d\<close>, and \<^verbatim>\<open>do_deploy\<close> is defined.
\<close>

definition raising_alias_methods :: "(string \<times> shell_method) list" where
  "raising_alias_methods =
     [(''alias_a'', failing_handler ''alias_a'' (OtherException ''boom'')),
      (''alias_deploy'', alias_method ''alias_deploy'' ''d''),
      (''do_deploy'', handler ''do_deploy'' 1 1)]"

text \<open>
  Modelled from the spec: the tokenizer, \<^verbatim>\<open>default_line_parser\<close> of
  \<^verbatim>\<open>friendlyshell.command_parsers\<close>, is not among the sources. Section 4.1 of the
  specification asks for a command token, zero or more whitespace-delimited parameter
  tokens, quoted tokens containing embedded whitespace, and the failure of the whole line
  when the grammar cannot match it. \<open>tokens q acc cs\<close> reads \<open>cs\<close> with the token \<open>acc\<close>
  begun, inside a quoted token when \<open>q\<close>; an open quote at the end of the line is a
  failure, and so is a line without a token, which has no command. The column of the
  failure is not specified, and is 1 here.
\<close>

definition is_space :: "char \<Rightarrow> bool" where
  "is_space c = (c = CHR '' '' \<or> c = CHR 0x09 \<or> c = CHR 0x0A \<or> c = CHR 0x0D)"

fun tokens :: "bool \<Rightarrow> string \<Rightarrow> string \<Rightarrow> string list option" where
  "tokens q acc [] = (if q then None else Some (if acc = [] then [] else [acc]))"
| "tokens q acc (c # cs) =
     (if q then
        (if c = CHR 0x22 then map_option ((#) acc) (tokens False [] cs)
         else tokens True (acc @ [c]) cs)
      else if is_space c then
        (if acc = [] then tokens False [] cs else map_option ((#) acc) (tokens False [] cs))
      else if c = CHR 0x22 \<and> acc = [] then tokens True [] cs
      else tokens False (acc @ [c]) cs)"

definition sample_parser :: "string \<Rightarrow> parse_exception + parsed" where
  "sample_parser line =
     (case tokens False [] line of
        None \<Rightarrow> Inl \<lparr>pstr = line, col = 1\<rparr>
      | Some [] \<Rightarrow> Inl \<lparr>pstr = line, col = 1\<rparr>
      | Some (c # ps) \<Rightarrow> Inr \<lparr>command = c, params = ps\<rparr>)"

definition no_expansion :: "string \<Rightarrow> string" where
  "no_expansion line = line"

definition any_format :: "string \<Rightarrow> bool" where
  "any_format m = True"

definition sample_program :: program where
  "sample_program =
     \<lparr>all_methods = (\<lambda>self. sample_methods), parseString = sample_parser,
      expandvars = no_expansion, format_ok = any_format\<rparr>"

text \<open>One shell reading from the keyboard; \<open>typed ls\<close> is what the user is going to enter.\<close>

definition typed :: "read_outcome list \<Rightarrow> world" where
  "typed ls = \<lparr>shells = (\<lambda>i. init_shell), streams = (\<lambda>f. []), stdin = ls, log = []\<rparr>"

text \<open>
  A backend that holds the parent's history \<^verbatim>\<open>a\<close>, \<^verbatim>\<open>b\<close>, with completer 7 installed and
  no history file on disk.
\<close>

definition parent_backend :: backend where
  "parent_backend =
     \<lparr>history = [''a'', ''b''], completer = Some 7, bindings = [], files = (\<lambda>f. None),
      autocomplete_enabled = True, has_read_history_file = True\<rparr>"

subsection \<open>Predicates of the properties\<close>

text \<open>
  \<open>keeps_done w w'\<close>: every session whose \<^verbatim>\<open>_done\<close> is true in \<open>w\<close> has it true in
  \<open>w'\<close>. \<open>monotone_bodies P\<close>: no handler body of the program, however it ends, sets a
  \<^verbatim>\<open>_done\<close> flag back to false (handler bodies are the host's code, not the engine's).
\<close>

definition keeps_done :: "world \<Rightarrow> world \<Rightarrow> bool" where
  "keeps_done w w' = (\<forall>x. done_flag (shells w x) \<longrightarrow> done_flag (shells w' x))"

definition monotone_bodies :: "program \<Rightarrow> bool" where
  "monotone_bodies P =
     (\<forall>self n m args s w r w'.
        (n, m) \<in> set (all_methods P self) \<longrightarrow> body m args s w = Some (r, w')
          \<longrightarrow> keeps_done w w')"

section \<open>Properties\<close>

subsection \<open>Exit and close\<close>

lemma shells_set_done:
  "shells (set_done s w) x = (if x = s then (shells w s)\<lparr>done_flag := True\<rparr> else shells w x)"
  by (simp add: set_done_def)

lemma rest_set_done:
  "streams (set_done s w) = streams w" "stdin (set_done s w) = stdin w"
  "log (set_done s w) = log w"
  by (simp_all add: set_done_def)

lemma ancestry_set_done: "ancestry w p ps \<Longrightarrow> ancestry (set_done s w) p ps"
  by (induction ps arbitrary: p) (auto simp: shells_set_done)

lemma ancestry_unique: "ancestry w s ps \<Longrightarrow> ancestry w s qs \<Longrightarrow> ps = qs"
proof (induction ps arbitrary: s qs)
  case Nil
  then show ?case by (cases qs) auto
next
  case (Cons p ps)
  then show ?case by (cases qs) auto
qed

lemma ancestry_suffix: "ancestry w s (as @ x # bs) \<Longrightarrow> ancestry w x bs"
  by (induction as arbitrary: s) auto

text \<open>A chain of parents that ends does not come back to where it started.\<close>

lemma ancestry_not_self:
  assumes "ancestry w s ps"
  shows "s \<notin> set ps"
proof
  assume "s \<in> set ps"
  then obtain as bs where ps: "ps = as @ s # bs"
    by (auto simp: in_set_conv_decomp)
  with assms have "ancestry w s bs"
    using ancestry_suffix by blast
  with assms have "ps = bs"
    by (rule ancestry_unique)
  with ps show False by simp
qed

lemma do_exit_ancestry:
  "ancestry w s ps \<Longrightarrow> do_exit w s = Some (fold set_done (s # ps) w)"
proof (induction ps arbitrary: w s)
  case Nil
  then show ?case by (subst do_exit.simps) simp
next
  case (Cons p ps)
  from Cons.prems have "ancestry (set_done s w) p ps"
    by (simp add: ancestry_set_done)
  from Cons.IH[OF this] Cons.prems show ?case
    by (subst do_exit.simps) simp
qed

lemma shells_fold_set_done:
  "shells (fold set_done xs w) x =
     (if x \<in> set xs then (shells w x)\<lparr>done_flag := True\<rparr> else shells w x)"
  by (induction xs arbitrary: w) (auto simp: shells_set_done)

text \<open>
  Claim C2. Let \<open>s\<close> be a session whose ancestors, through \<^verbatim>\<open>_parent\<close>, are \<open>ps\<close> (so \<open>s\<close>
  is nested at depth \<open>length ps\<close>). Then \<^verbatim>\<open>do_exit\<close> on \<open>s\<close> returns, with \<^verbatim>\<open>_done\<close> true on
  \<open>s\<close> and on every session of \<open>ps\<close> and every other session as it was; \<^verbatim>\<open>do_close\<close> on \<open>s\<close>
  sets \<^verbatim>\<open>_done\<close> on \<open>s\<close>, leaves the flag of every ancestor as it was, and changes no
  other session.
\<close>

theorem exit_propagates_close_does_not:
  assumes "ancestry w s ps"
  shows "(\<exists>w'. do_exit w s = Some w'
            \<and> (\<forall>x \<in> set (s # ps). done_flag (shells w' x))
            \<and> (\<forall>x. x \<notin> set (s # ps) \<longrightarrow> shells w' x = shells w x))
         \<and> done_flag (shells (do_close w s) s)
         \<and> (\<forall>x \<in> set ps. done_flag (shells (do_close w s) x) = done_flag (shells w x))
         \<and> (\<forall>x. x \<noteq> s \<longrightarrow> shells (do_close w s) x = shells w x)"
proof -
  have "do_exit w s = Some (fold set_done (s # ps) w)"
    using assms by (rule do_exit_ancestry)
  moreover have "s \<notin> set ps"
    using assms by (rule ancestry_not_self)
  ultimately show ?thesis
    by (auto simp: shells_fold_set_done do_close_def shells_set_done)
qed

text \<open>
  In \<open>nested_world\<close>, at depth 2: \<^verbatim>\<open>exit\<close> in shell 2 ends shells 2, 1 and 0 and leaves
  shell 3 running; \<^verbatim>\<open>close\<close> in shell 2 ends shell 2 only.
\<close>

theorem exit_propagates_close_does_not_witness:
  "ancestry nested_world 2 [1, 0]
   \<and> (\<exists>w'. do_exit nested_world 2 = Some w'
          \<and> done_flag (shells w' 2) \<and> done_flag (shells w' 1) \<and> done_flag (shells w' 0)
          \<and> \<not> done_flag (shells w' 3))
   \<and> done_flag (shells (do_close nested_world 2) 2)
   \<and> \<not> done_flag (shells (do_close nested_world 2) 1)
   \<and> \<not> done_flag (shells (do_close nested_world 2) 0)"
proof -
  have a: "ancestry nested_world 2 [1, 0]"
    by (simp add: nested_world_def init_shell_def)
  have n: "\<not> done_flag (shells nested_world 1)" "\<not> done_flag (shells nested_world 0)"
    "\<not> done_flag (shells nested_world 3)"
    by (simp_all add: nested_world_def init_shell_def)
  from exit_propagates_close_does_not[OF a] a n show ?thesis
    by auto
qed

subsection \<open>Alias resolution\<close>

text \<open>
  With \<open>cyclic_methods\<close>, a call of \<^verbatim>\<open>_find_command\<close> that returns would need an earlier
  one that returns: fixpoint induction on the definition.
\<close>

lemma find_alias_cyclic:
  "find_alias cyclic_methods ''ls'' = Inr (Some (''alias_list'', alias_method ''alias_list'' ''ls''))"
  "find_alias cyclic_methods ''list'' = Inr (Some (''alias_ls'', alias_method ''alias_ls'' ''list''))"
  by (simp_all add: cyclic_methods_def alias_method_def alias_call_def startswith_def)

lemma find_do_cyclic:
  "find (\<lambda>cur_method. fst cur_method = ''do_'' @ ''ls'') cyclic_methods = None"
  "find (\<lambda>cur_method. fst cur_method = ''do_'' @ ''list'') cyclic_methods = None"
  by (simp_all add: cyclic_methods_def)

lemma find_command_cyclic_not_Some:
  assumes "find_command ms n = Some r"
  shows "\<not> (ms = cyclic_methods \<and> (n = ''ls'' \<or> n = ''list''))"
proof (rule find_command.raw_induct
    [where P = "\<lambda>ms n r. \<not> (ms = cyclic_methods \<and> (n = ''ls'' \<or> n = ''list''))", OF _ assms],
    goal_cases)
  case (1 f ms n r)
  note IH = "1"(1) and step = "1"(2)
  show ?case
  proof
    assume a: "ms = cyclic_methods \<and> (n = ''ls'' \<or> n = ''list'')"
    then consider "n = ''ls''" | "n = ''list''" by blast
    then show False
    proof cases
      case 1
      with a step have "f cyclic_methods ''list'' = Some r"
        by (simp add: find_alias_cyclic find_do_cyclic del: append.simps)
      from IH[OF this] show False by simp
    next
      case 2
      with a step have "f cyclic_methods ''ls'' = Some r"
        by (simp add: find_alias_cyclic find_do_cyclic del: append.simps)
      from IH[OF this] show False by simp
    qed
  qed
qed

text \<open>
  Claim C3 says that resolution returns a binding or \<^verbatim>\<open>NotFound\<close> for every shell, alias
  cycles included. On the shell whose \<^verbatim>\<open>alias_list\<close> returns \<^verbatim>\<open>ls\<close> and whose \<^verbatim>\<open>alias_ls\<close>
  returns \<^verbatim>\<open>list\<close>, with neither command defined, \<^verbatim>\<open>_find_command("ls")\<close> calls
  \<^verbatim>\<open>_find_command("list")\<close>, which calls \<^verbatim>\<open>_find_command("ls")\<close>: the call does not return.
\<close>

theorem find_command_alias_cycle_diverges: "find_command cyclic_methods ''ls'' = None"
proof (cases "find_command cyclic_methods ''ls''")
  case None
  then show ?thesis .
next
  case (Some r)
  from find_command_cyclic_not_Some[OF this] show ?thesis by simp
qed

text \<open>An alias whose target does not exist, and that no other alias reports, resolves to \<^verbatim>\<open>None\<close>.\<close>

lemma find_command_dangling_alias:
  "find_command [(''alias_gone'', alias_method ''alias_gone'' ''g'')] ''g'' = Some (Inr None)"
  apply (subst find_command.simps)
  apply (simp add: alias_method_def alias_call_def startswith_def)
  apply (subst find_command.simps)
  apply (simp add: alias_method_def alias_call_def startswith_def)
  done

text \<open>
  An alias method that raises when it is called ends the resolution of every name that
  is not a command: in \<open>raising_alias_methods\<close>, \<^verbatim>\<open>deploy\<close> resolves in the first loop, and
  the resolution of its alias \<^verbatim>\<open>d\<close> is left by the exception of \<^verbatim>\<open>alias_a\<close>.
\<close>

lemma find_command_raising_alias:
  "find_command raising_alias_methods ''deploy'' = Some (Inr (Some (handler ''do_deploy'' 1 1)))"
  "find_command raising_alias_methods ''d'' = Some (Inl (OtherException ''boom''))"
  by (subst find_command.simps,
      simp add: raising_alias_methods_def failing_handler_def alias_call_def startswith_def)+

text \<open>
  Claim C8 as stated, for every alias provider: in \<open>shadowed_methods\<close> the provider
  \<^verbatim>\<open>alias_list\<close> reports \<^verbatim>\<open>ls\<close> and its target is \<^verbatim>\<open>list\<close>, but \<^verbatim>\<open>ls\<close> is a command of its
  own, found by the first loop: resolving \<^verbatim>\<open>ls\<close> gives \<^verbatim>\<open>do_ls\<close>, resolving \<^verbatim>\<open>list\<close> gives
  \<^verbatim>\<open>do_list\<close>.
\<close>

theorem alias_shadowed_by_command_counterexample:
  "(''alias_list'', alias_method ''alias_list'' ''ls'') \<in> set shadowed_methods
   \<and> alias_call (alias_method ''alias_list'' ''ls'') = Inr (Some ''ls'')
   \<and> find_command shadowed_methods ''ls'' = Some (Inr (Some (handler ''do_ls'' 0 1)))
   \<and> find_command shadowed_methods (drop (length ''alias_'') ''alias_list'')
       = Some (Inr (Some (handler ''do_list'' 0 0)))
   \<and> find_command shadowed_methods ''ls''
       \<noteq> find_command shadowed_methods (drop (length ''alias_'') ''alias_list'')"
proof -
  have 1: "find_command shadowed_methods ''ls'' = Some (Inr (Some (handler ''do_ls'' 0 1)))"
    by (subst find_command.simps) (simp add: shadowed_methods_def)
  have 2: "find_command shadowed_methods ''list'' = Some (Inr (Some (handler ''do_list'' 0 0)))"
    by (subst find_command.simps) (simp add: shadowed_methods_def)
  have 3: "handler ''do_ls'' 0 1 \<noteq> handler ''do_list'' 0 0"
    by (simp add: handler_def)
  show ?thesis
    using 1 2 3 by (simp add: shadowed_methods_def alias_method_def alias_call_def)
qed

text \<open>
  What the second loop stops at is a member of the shell whose name starts with
  \<^verbatim>\<open>alias_\<close> and whose call returns the name that is looked up.
\<close>

lemma find_alias_Some:
  "find_alias ms s = Inr (Some (n, m))
   \<Longrightarrow> (n, m) \<in> set ms \<and> startswith n ''alias_'' \<and> alias_call m = Inr (Some s)"
  by (induction ms) (auto split: if_splits sum.splits)

text \<open>
  Claim C8, amended. Let \<open>s\<close> name no command of the shell (no member \<^verbatim>\<open>do_s\<close>), and let
  the second loop of \<^verbatim>\<open>_find_command\<close> on \<open>s\<close> stop at the member \<open>n\<close>: every member before
  \<open>n\<close> whose name starts with \<^verbatim>\<open>alias_\<close> returns when it is called, none of them reports
  \<open>s\<close>, and \<open>n\<close> is an alias provider that reports \<open>s\<close>. Let \<open>t\<close> be the target of \<open>n\<close>, its
  name after \<^verbatim>\<open>alias_\<close>. Then resolving \<open>s\<close> ends as resolving \<open>t\<close> ends: with the same
  binding, the same \<^verbatim>\<open>None\<close> or the same exception, or neither returns. And when the
  command \<^verbatim>\<open>do_t\<close> exists, both return: resolving \<open>s\<close> and resolving \<open>t\<close> give its handler.
\<close>

theorem alias_resolves_as_target:
  assumes "\<forall>cur_method \<in> set ms. fst cur_method \<noteq> ''do_'' @ s"
      and "find_alias ms s = Inr (Some (n, m))"
  shows "find_command ms s = find_command ms (drop (length ''alias_'') n)
       \<and> (\<forall>target. find (\<lambda>cur_method. fst cur_method = ''do_'' @ drop (length ''alias_'') n) ms
                       = Some target
            \<longrightarrow> find_command ms s = Some (Inr (Some (snd target)))
              \<and> find_command ms (drop (length ''alias_'') n) = Some (Inr (Some (snd target))))"
proof -
  from assms(1) have "find (\<lambda>cur_method. fst cur_method = ''do_'' @ s) ms = None"
    by (force simp: find_None_iff)
  with assms(2)
  have eq: "find_command ms s = find_command ms (drop (length ''alias_'') n)"
    by (subst find_command.simps) simp
  have "find_command ms (drop (length ''alias_'') n) = Some (Inr (Some (snd target)))"
    if "find (\<lambda>cur_method. fst cur_method = ''do_'' @ drop (length ''alias_'') n) ms
          = Some target" for target
    using that by (subst find_command.simps) simp
  with eq show ?thesis by simp
qed

text \<open>
  In \<open>sample_methods\<close>, \<^verbatim>\<open>d\<close> is the alias of \<^verbatim>\<open>deploy\<close>: both resolve to \<^verbatim>\<open>do_deploy\<close>.
\<close>

theorem alias_resolves_as_target_witness:
  "find (\<lambda>cur_method. fst cur_method = ''do_'' @ ''d'') sample_methods = None
   \<and> find_alias sample_methods ''d''
       = Inr (Some (''alias_deploy'', alias_method ''alias_deploy'' ''d''))
   \<and> find_command sample_methods ''d'' = Some (Inr (Some (handler ''do_deploy'' 1 1)))
   \<and> find_command sample_methods ''deploy'' = Some (Inr (Some (handler ''do_deploy'' 1 1)))"
proof -
  have 1: "\<forall>cur_method \<in> set sample_methods. fst cur_method \<noteq> ''do_'' @ ''d''"
    by (simp add: sample_methods_def)
  have 2: "find_alias sample_methods ''d''
             = Inr (Some (''alias_deploy'', alias_method ''alias_deploy'' ''d''))"
    by (simp add: sample_methods_def alias_method_def alias_call_def startswith_def)
  have 3: "find (\<lambda>cur_method. fst cur_method = ''do_'' @ drop (length ''alias_'') ''alias_deploy'')
             sample_methods = Some (''do_deploy'', handler ''do_deploy'' 1 1)"
    by (simp add: sample_methods_def)
  have 4: "find (\<lambda>cur_method. fst cur_method = ''do_'' @ ''d'') sample_methods = None"
    by (simp add: sample_methods_def)
  from alias_resolves_as_target[OF 1 2] 2 3 4 show ?thesis
    by simp
qed

subsection \<open>Arity check and argument binding\<close>

text \<open>
  A line that is not skipped, that parses, and whose command resolves to \<open>func\<close> is
  dispatched: \<^verbatim>\<open>_check_params\<close>, then \<^verbatim>\<open>_execute_command\<close>.
\<close>

lemma process_line_dispatch:
  assumes "l \<noteq> []" and "\<not> startswith l (comment_delimiter (shells w self))"
    and "parseString P (expandvars P l) = Inr parser"
    and "find_command (all_methods P self) (command parser) = Some (Inr (Some func))"
  shows "process_line P self (Some l) w =
           (case check_params func parser w of
              (False, w2) \<Rightarrow> Some (None, w2)
            | (True, w2) \<Rightarrow> execute_command func parser self w2)"
  using assms by (simp add: process_line_def parse_line_def)

lemma params_to_pass_fits:
  "length ps \<le> count_params func \<Longrightarrow> params_to_pass func ps = ps"
  by (simp add: params_to_pass_def)

lemma params_to_pass_compress:
  assumes "count_params func < length ps" and "0 < count_params func"
  shows "params_to_pass func ps =
           take (count_params func - 1) ps @ [join '' '' (drop (count_params func - 1) ps)]"
proof -
  have "length ps - (length ps - count_params func + 1) = count_params func - 1"
    using assms by arith
  then show ?thesis
    using assms by (simp add: params_to_pass_def slice_last_def slice_butlast_def Let_def)
qed

lemma body_handler:
  "body (handler n r opt) args self w = Some (None, emit INFO n (map S args) w)"
  by (simp add: handler_def)

text \<open>
  Claim C1. Let a line parse to \<open>k\<close> parameter tokens \<open>ps\<close> and its command resolve to a
  handler with \<open>R\<close> required and \<open>T\<close> declared parameters. Then \<open>R \<le> T\<close>, and:
  with \<open>T = 0\<close> and \<open>k \<noteq> 0\<close> the iteration ends with the report that the command accepts
  no parameters, and the handler body is not run; with \<open>k < R\<close> it ends with the report
  that the command requires \<open>R\<close> parameters, and the body is not run; with
  \<open>R \<le> k \<le> T\<close> the body is called with \<open>ps\<close> as they are; with \<open>k > T > 0\<close> the body is
  called with the first \<open>T - 1\<close> tokens followed by the remaining \<open>k - T + 1\<close> tokens joined
  by single blanks, \<open>T\<close> arguments in all. (\<open>except_clauses\<close> is what \<^verbatim>\<open>_execute_command\<close>
  does with the way the call ends.)
\<close>

theorem argument_binder_contract:
  fixes P self l w parser func
  defines "ps \<equiv> params parser"
  defines "k \<equiv> length (params parser)"
  defines "R \<equiv> count_required_params func"
  defines "T \<equiv> count_params func"
  assumes "l \<noteq> []" and "\<not> startswith l (comment_delimiter (shells w self))"
    and "parseString P (expandvars P l) = Inr parser"
    and "find_command (all_methods P self) (command parser) = Some (Inr (Some func))"
  shows "R \<le> T
     \<and> (T = 0 \<and> k \<noteq> 0 \<longrightarrow>
          process_line P self (Some l) w =
            Some (None, emit ERROR ''Command %s accepts no parameters but %s provided.''
                          [S (replace_do (name func)), N k] w))
     \<and> (k < R \<longrightarrow>
          process_line P self (Some l) w =
            Some (None, emit ERROR ''Command %s requires %s parameters but %s provided.''
                          [S (replace_do (name func)), N R, N k] w))
     \<and> (R \<le> k \<and> k \<le> T \<longrightarrow>
          process_line P self (Some l) w = except_clauses (body func ps self w))
     \<and> (T < k \<and> 0 < T \<longrightarrow>
          process_line P self (Some l) w =
            except_clauses
              (body func (take (T - 1) ps @ [join '' '' (drop (T - 1) ps)]) self w)
          \<and> length (take (T - 1) ps @ [join '' '' (drop (T - 1) ps)]) = T
          \<and> length (drop (T - 1) ps) = k - T + 1)"
proof -
  note d = process_line_dispatch[OF assms(5-8)]
  have RT: "R \<le> T"
    by (simp add: R_def T_def count_required_params_def count_params_def)
  have c1: "T = 0 \<and> k \<noteq> 0 \<longrightarrow>
          process_line P self (Some l) w =
            Some (None, emit ERROR ''Command %s accepts no parameters but %s provided.''
                          [S (replace_do (name func)), N k] w)"
    by (simp add: d check_params_def Let_def T_def k_def)
  have c2: "k < R \<longrightarrow>
          process_line P self (Some l) w =
            Some (None, emit ERROR ''Command %s requires %s parameters but %s provided.''
                          [S (replace_do (name func)), N R, N k] w)"
    using RT by (auto simp add: d check_params_def Let_def T_def k_def R_def)
  have c3: "R \<le> k \<and> k \<le> T \<longrightarrow>
          process_line P self (Some l) w = except_clauses (body func ps self w)"
    by (auto simp add: d check_params_def Let_def T_def k_def R_def ps_def
        execute_command_def call_def params_to_pass_fits)
  have c4: "T < k \<and> 0 < T \<longrightarrow>
          process_line P self (Some l) w =
            except_clauses
              (body func (take (T - 1) ps @ [join '' '' (drop (T - 1) ps)]) self w)
          \<and> length (take (T - 1) ps @ [join '' '' (drop (T - 1) ps)]) = T
          \<and> length (drop (T - 1) ps) = k - T + 1"
    using RT by (auto simp add: d check_params_def Let_def T_def k_def R_def ps_def
        execute_command_def call_def params_to_pass_compress)
  from RT c1 c2 c3 c4 show ?thesis by blast
qed

text \<open>
  The line \<^verbatim>\<open>deploy --region us-east extra words\<close> against \<^verbatim>\<open>do_deploy(self, region, notes='')\<close>:
  four tokens for two parameters, and the handler is called with \<^verbatim>\<open>--region\<close> and
  \<^verbatim>\<open>us-east extra words\<close>.
\<close>

theorem argument_binder_contract_witness:
  "''deploy --region us-east extra words'' \<noteq> []
   \<and> \<not> startswith ''deploy --region us-east extra words''
         (comment_delimiter (shells (typed []) 0))
   \<and> parseString sample_program (expandvars sample_program ''deploy --region us-east extra words'')
       = Inr \<lparr>command = ''deploy'', params = [''--region'', ''us-east'', ''extra'', ''words'']\<rparr>
   \<and> find_command (all_methods sample_program 0) ''deploy''
       = Some (Inr (Some (handler ''do_deploy'' 1 1)))
   \<and> count_required_params (handler ''do_deploy'' 1 1) = 1
   \<and> count_params (handler ''do_deploy'' 1 1) = 2
   \<and> process_line sample_program 0 (Some ''deploy --region us-east extra words'') (typed [])
       = Some (None, emit INFO ''do_deploy'' [S ''--region'', S ''us-east extra words'']
                       (typed []))"
proof -
  let ?l = "''deploy --region us-east extra words''"
  let ?parser = "\<lparr>command = ''deploy'', params = [''--region'', ''us-east'', ''extra'', ''words'']\<rparr>"
  have 1: "?l \<noteq> []" by simp
  have 2: "\<not> startswith ?l (comment_delimiter (shells (typed []) 0))"
    by (simp add: startswith_def typed_def init_shell_def)
  have 3: "parseString sample_program (expandvars sample_program ?l) = Inr ?parser"
    by (simp add: sample_program_def no_expansion_def sample_parser_def is_space_def)
  have 4: "find_command (all_methods sample_program 0) (command ?parser)
             = Some (Inr (Some (handler ''do_deploy'' 1 1)))"
    by (subst find_command.simps) (simp add: sample_program_def sample_methods_def)
  have 5: "count_required_params (handler ''do_deploy'' 1 1) = 1"
    "count_params (handler ''do_deploy'' 1 1) = 2"
    by (simp_all add: count_required_params_def count_params_def handler_def)
  from argument_binder_contract[OF 1 2 3 4] 1 2 3 4 5 show ?thesis
    by (simp add: body_handler except_clauses_def)
qed

subsection \<open>The loop: skipped lines\<close>

lemma shells_emit [simp]: "shells (emit l fmt args w) = shells w"
  by (simp add: emit_def)

lemma rest_emit [simp]:
  "streams (emit l fmt args w) = streams w" "stdin (emit l fmt args w) = stdin w"
  "log (emit l fmt args w) = log w @ [(l, fmt, args)]"
  by (simp_all add: emit_def)

text \<open>
  One turn of the loop: when \<^verbatim>\<open>_get_input\<close> returns and the rest of the body ends without
  an exception, the loop goes on from the store the body leaves.
\<close>

lemma run_loop_step:
  assumes "\<not> done_flag (shells w0 self)"
      and "get_input P self w0 = Some (Inr line, w)"
      and "process_line P self line w = Some (None, w')"
  shows "run_loop P self w0 = run_loop P self w'"
  using assms by (subst run_loop.simps) simp





subsection \<open>The loop: an unexpected error of the input source\<close>

lemma run_loop_done: "done_flag (shells w self) \<Longrightarrow> run_loop P self w = Some (None, w)"
  by (subst run_loop.simps) simp

text \<open>
  Claim C10. When the \<^verbatim>\<open>try\<close> block of \<^verbatim>\<open>_get_input\<close> is left by an exception that is an
  \<^verbatim>\<open>Exception\<close> but neither \<^verbatim>\<open>KeyboardInterrupt\<close> nor \<^verbatim>\<open>EOFError\<close>, with the store \<open>w1\<close>
  after the failed read, then \<^verbatim>\<open>_get_input\<close> returns \<^verbatim>\<open>None\<close> (the exception does not leave
  it), having reported the error through \<^verbatim>\<open>self.error\<close> and set \<^verbatim>\<open>_done\<close> of this session,
  and of no other; and a loop that was running ends there, without another read.
\<close>

theorem unexpected_input_error_ends_session:
  assumes "read_input P self w = (Inl (OtherException m), w1)"
  shows "\<exists>w'. get_input P self w = Some (Inr None, w')
            \<and> done_flag (shells w' self)
            \<and> (\<forall>x. x \<noteq> self \<longrightarrow> shells w' x = shells w1 x)
            \<and> log w' = log w1 @ [(ERROR, ''Unexpected error during input sequence: %s'',
                                    [X (OtherException m)])]
            \<and> streams w' = streams w1 \<and> stdin w' = stdin w1
            \<and> (\<not> done_flag (shells w self) \<longrightarrow> run_loop P self w = Some (None, w'))"
proof -
  let ?w' = "set_done self (emit ERROR ''Unexpected error during input sequence: %s''
                              [X (OtherException m)] w1)"
  have g: "get_input P self w = Some (Inr None, ?w')"
    using assms by (simp add: get_input_def)
  have d: "done_flag (shells ?w' self)"
    by (simp add: shells_set_done)
  have "run_loop P self w = Some (None, ?w')" if "\<not> done_flag (shells w self)"
  proof -
    have "process_line P self None ?w' = Some (None, ?w')"
      by (simp add: process_line_def)
    with that g have "run_loop P self w = run_loop P self ?w'"
      by (rule run_loop_step)
    with d show ?thesis
      by (simp add: run_loop_done)
  qed
  with g d show ?thesis
    by (auto simp: shells_set_done rest_set_done)
qed

text \<open>
  The keyboard read fails with an \<^verbatim>\<open>IOError\<close> while the line \<^verbatim>\<open>status\<close> is still to come:
  the loop ends with the error reported and \<^verbatim>\<open>_done\<close> set, and the line is never read.
\<close>

theorem unexpected_input_error_ends_session_witness:
  "read_input sample_program 0 (typed [ReadRaises (OtherException ''IOError''), Line ''status''])
     = (Inl (OtherException ''IOError''), typed [Line ''status''])
   \<and> \<not> done_flag (shells (typed [ReadRaises (OtherException ''IOError''), Line ''status'']) 0)
   \<and> (\<exists>w'. run_loop sample_program 0
                (typed [ReadRaises (OtherException ''IOError''), Line ''status''])
                = Some (None, w')
          \<and> done_flag (shells w' 0)
          \<and> log w' = [(ERROR, ''Unexpected error during input sequence: %s'',
                        [X (OtherException ''IOError'')])]
          \<and> stdin w' = [Line ''status''])"
proof -
  let ?w = "typed [ReadRaises (OtherException ''IOError''), Line ''status'']"
  have 1: "read_input sample_program 0 ?w
             = (Inl (OtherException ''IOError''), typed [Line ''status''])"
    by (simp add: read_input_def typed_def init_shell_def)
  have 2: "\<not> done_flag (shells ?w 0)"
    by (simp add: typed_def init_shell_def)
  have 3: "log (typed [Line ''status'']) = []" "stdin (typed [Line ''status'']) = [Line ''status'']"
    by (simp_all add: typed_def)
  from unexpected_input_error_ends_session[OF 1] 1 2 3 show ?thesis
    by auto
qed

subsection \<open>The loop: failures of one line\<close>

lemma check_params_shells: "shells (snd (check_params func parser w)) = shells w"
  by (simp add: check_params_def Let_def)











end
